theory Spec2Isabelle
  imports Main "HOL-Library.Multiset"
begin

section \<open>Numbers\<close>

text \<open>
  A TypeScript \<^verbatim>\<open>number\<close> is an IEEE double. The numbers of this development are the
  integer-valued doubles (the data model stores goals and counts as integers), the two
  infinities and \<^verbatim>\<open>NaN\<close>; zero has no sign here. \<open>Num n\<close> is a number of the code
  when \<open>n\<close> is a double, which every \<open>n\<close> with \<open>\<bar>n\<bar> \<le> 2 ^ 53\<close> is.
\<close>

datatype number = Num int | PosInfinity | NegInfinity | NaN

text \<open>
  Rounding an integer to the nearest double, ties to even: \<open>expo a\<close> is the number of
  low bits a magnitude \<open>a\<close> loses to fit the 53 bits of a significand, and a result of
  magnitude \<open>2 ^ 1024\<close> or more overflows to an infinity.
\<close>

function expo :: "nat \<Rightarrow> nat" where
  "expo a = (if a < 2 ^ 53 then 0 else Suc (expo (a div 2)))"
  by pat_completeness auto
termination
  by (relation "measure (\<lambda>a. a)") auto

declare expo.simps [simp del]

definition roundNumber :: "int \<Rightarrow> number" where
  "roundNumber x =
     (let a = nat \<bar>x\<bar>;
          e = expo a;
          q = a div 2 ^ e;
          r = a mod 2 ^ e;
          v = (if 2 * r > 2 ^ e \<or> (2 * r = 2 ^ e \<and> odd q) then q + 1 else q) * 2 ^ e
      in if v \<ge> 2 ^ 1024 then (if x < 0 then NegInfinity else PosInfinity)
         else Num (if x < 0 then - int v else int v))"

text \<open>The operators of the code on numbers: \<^verbatim>\<open>+\<close>, \<^verbatim>\<open>*\<close>, \<^verbatim>\<open>>\<close> and \<^verbatim>\<open>===\<close>.\<close>

fun jsAdd :: "number \<Rightarrow> number \<Rightarrow> number" where
  "jsAdd (Num a) (Num b) = roundNumber (a + b)"
| "jsAdd NaN y = NaN"
| "jsAdd x NaN = NaN"
| "jsAdd PosInfinity NegInfinity = NaN"
| "jsAdd NegInfinity PosInfinity = NaN"
| "jsAdd PosInfinity y = PosInfinity"
| "jsAdd x PosInfinity = PosInfinity"
| "jsAdd NegInfinity y = NegInfinity"
| "jsAdd x NegInfinity = NegInfinity"

fun signOf :: "number \<Rightarrow> int" where
  "signOf (Num a) = sgn a"
| "signOf PosInfinity = 1"
| "signOf NegInfinity = - 1"
| "signOf NaN = 0"

definition jsMul :: "number \<Rightarrow> number \<Rightarrow> number" where
  "jsMul x y =
     (case (x, y) of
        (Num a, Num b) \<Rightarrow> roundNumber (a * b)
      | _ \<Rightarrow>
          if signOf x * signOf y = 0 then NaN
          else if signOf x * signOf y > 0 then PosInfinity else NegInfinity)"

fun jsGt :: "number \<Rightarrow> number \<Rightarrow> bool" where
  "jsGt (Num a) (Num b) = (a > b)"
| "jsGt NaN y = False"
| "jsGt x NaN = False"
| "jsGt PosInfinity PosInfinity = False"
| "jsGt PosInfinity y = True"
| "jsGt x PosInfinity = False"
| "jsGt NegInfinity y = False"
| "jsGt x NegInfinity = True"

definition jsEq :: "number \<Rightarrow> number \<Rightarrow> bool" where
  "jsEq x y = (x \<noteq> NaN \<and> x = y)"

section \<open>Shared types\<close>

text \<open>
  The interfaces of \<^verbatim>\<open>shared/types/index.ts\<close> that the cloud function
  \<^verbatim>\<open>calculateTeamStats\<close> touches. A \<^verbatim>\<open>Date\<close> is its number of milliseconds. An
  optional field is an \<open>option\<close>. The records list the fields the function reads or
  writes and the identification fields; the remaining fields of \<^verbatim>\<open>Team\<close>
  (category, coach, venue, ...) and of \<^verbatim>\<open>Match\<close> (competition, venue, events,
  lineup, ...) are the extension slot of the record, so every statement below is about
  \<open>'a Team_scheme\<close> and \<open>'a Match_scheme\<close>.
\<close>

type_synonym Date = int

record BaseEntity =
  id :: string
  createdAt :: Date
  updatedAt :: Date
  version :: number

record BaseAuditableEntity = BaseEntity +
  createdBy :: string
  updatedBy :: string

datatype MembershipStatus = Pending | Active | Suspended | Inactive

record ClubMembership = BaseEntity +
  clubId :: string
  userId :: string
  status :: MembershipStatus
  joinedAt :: Date
  approvedBy :: "string option"
  approvedAt :: "Date option"

datatype StreakType = Win | Draw | Loss

record StreakInfo =
  type :: StreakType
  count :: number

record TeamStats =
  matchesPlayed :: number
  wins :: number
  draws :: number
  losses :: number
  goalsFor :: number
  goalsAgainst :: number
  points :: number
  currentStreak :: StreakInfo

record Team = BaseAuditableEntity +
  clubId :: string
  name :: string
  season :: string
  players :: "string list"
  stats :: TeamStats

datatype MatchStatus = Scheduled | Live | Halftime | Finished | Postponed | Cancelled

record MatchResult =
  homeGoals :: number
  awayGoals :: number
  homeTeamPenalties :: "number option"
  awayTeamPenalties :: "number option"
  notes' :: "string option"

record Match = BaseAuditableEntity +
  clubId :: string
  homeTeamId :: string
  awayTeamId :: string
  date :: Date
  status :: MatchStatus
  result :: "MatchResult option"

section \<open>The callable request, its errors and its response\<close>

datatype FunctionsErrorCode =
  Unauthenticated | InvalidArgument | NotFound | PermissionDenied | Internal

text \<open>
  What a \<^verbatim>\<open>throw\<close> carries: an \<^verbatim>\<open>HttpsError\<close> with its code and message, the
  error of a Firestore call the store rejected, the error the Firestore client throws
  for a path that names no document, or the \<^verbatim>\<open>TypeError\<close> of destructuring a
  request without data; the last three are not \<^verbatim>\<open>HttpsError\<close>s.
\<close>

datatype error =
  HttpsError FunctionsErrorCode string | FirestoreError | InvalidPath | TypeError

record AuthToken =
  email :: "string option"
  email_verified :: "bool option"

record AuthData =
  uid :: string
  token :: AuthToken

text \<open>
  \<^verbatim>\<open>request.data\<close> is an object or absent (\<^verbatim>\<open>null\<close>); its \<^verbatim>\<open>teamId\<close> is
  absent or a string (the empty string is falsy too).
\<close>

record RequestData =
  teamId :: "string option"

record CallableRequest =
  auth :: "AuthData option"
  data :: "RequestData option"

record AuthContext =
  uid :: string
  email :: "string option"
  emailVerified :: "bool option"

record Response =
  success :: bool
  stats :: TeamStats

section \<open>The document store\<close>

text \<open>
  How the Firestore client resolves the argument of \<^verbatim>\<open>.doc(path)\<close> on a collection:
  the path must be a non-empty string without \<^verbatim>\<open>//\<close>; it is split at the slashes,
  a leading and a trailing slash are dropped, and the segments must name a document,
  which under a collection is an odd number of segments. Otherwise the client throws,
  before anything is sent to the store.
\<close>

fun splitSlash :: "string \<Rightarrow> string list" where
  "splitSlash [] = [[]]"
| "splitSlash (c # cs) =
     (if c = CHR ''/'' then [] # splitSlash cs
      else (case splitSlash cs of [] \<Rightarrow> [[c]] | s # ss \<Rightarrow> (c # s) # ss))"

fun hasDoubleSlash :: "string \<Rightarrow> bool" where
  "hasDoubleSlash (a # b # cs) = ((a = CHR ''/'' \<and> b = CHR ''/'') \<or> hasDoubleSlash (b # cs))"
| "hasDoubleSlash cs = False"

definition docRef :: "string \<Rightarrow> string list option" where
  "docRef p =
     (if p = [] \<or> hasDoubleSlash p then None
      else (let segs = filter (\<lambda>s. s \<noteq> []) (splitSlash p)
            in if odd (length segs) then Some segs else None))"

text \<open>
  \<^verbatim>\<open>db.collection(CLUBS).doc(clubId).collection('members').doc(userId)\<close>: the path of
  the membership document below \<^verbatim>\<open>clubs\<close>.
\<close>

definition memberRef :: "string \<Rightarrow> string \<Rightarrow> string list option" where
  "memberRef cid usr =
     (case docRef cid of
        None \<Rightarrow> None
      | Some cs \<Rightarrow>
          (case docRef usr of None \<Rightarrow> None | Some us \<Rightarrow> Some (cs @ [''members''] @ us)))"

text \<open>
  The Firestore collections the function uses: the documents below \<^verbatim>\<open>teams\<close> and
  the membership documents below \<^verbatim>\<open>clubs\<close>, each by its path under the collection,
  and the documents of \<^verbatim>\<open>matches\<close> in the order a query returns them. The rest of
  the world of one invocation: the clock that \<^verbatim>\<open>new Date()\<close> reads, the log of the
  store calls issued so far, and \<open>outage\<close>, which says for every \<open>n\<close> whether the
  \<open>n\<close>-th store call ever issued is rejected by the store. The logger is not modelled.
\<close>

datatype store_call =
  GetTeam "string list"
  | GetMember "string list"
  | QueryHome string
  | QueryAway string
  | UpdateTeam "string list"

record ('t, 'm) world =
  teams :: "string list \<rightharpoonup> 't Team_scheme"
  members :: "string list \<rightharpoonup> ClubMembership"
  matches :: "'m Match_scheme list"
  clock :: Date
  outage :: "nat \<Rightarrow> bool"
  calls :: "store_call list"

text \<open>Issuing a store call: it is logged, and it is served unless the store is out.\<close>

definition issue :: "store_call \<Rightarrow> ('t, 'm) world \<Rightarrow> bool \<times> ('t, 'm) world" where
  "issue c w = (\<not> outage w (length (calls w)), w\<lparr>calls := calls w @ [c]\<rparr>)"

text \<open>\<^verbatim>\<open>db.collection(TEAMS).doc(teamId).get()\<close>; \<open>None\<close> is a snapshot that does not exist.\<close>

definition getTeamDoc ::
  "string \<Rightarrow> ('t, 'm) world \<Rightarrow> (error + 't Team_scheme option) \<times> ('t, 'm) world" where
  "getTeamDoc tid w =
     (case docRef tid of
        None \<Rightarrow> (Inl InvalidPath, w)
      | Some p \<Rightarrow>
          (case issue (GetTeam p) w of
             (ok, w') \<Rightarrow> if ok then (Inr (teams w' p), w') else (Inl FirestoreError, w')))"

text \<open>\<^verbatim>\<open>db.collection(CLUBS).doc(clubId).collection('members').doc(userId).get()\<close>\<close>

definition getMembershipDoc ::
  "string \<Rightarrow> string \<Rightarrow> ('t, 'm) world \<Rightarrow> (error + ClubMembership option) \<times> ('t, 'm) world" where
  "getMembershipDoc cid usr w =
     (case memberRef cid usr of
        None \<Rightarrow> (Inl InvalidPath, w)
      | Some p \<Rightarrow>
          (case issue (GetMember p) w of
             (ok, w') \<Rightarrow> if ok then (Inr (members w' p), w') else (Inl FirestoreError, w')))"

text \<open>
  \<^verbatim>\<open>db.collection(MATCHES).where('homeTeamId', '==', teamId).where('status', '==', 'finished').get()\<close>
  and the same query on \<^verbatim>\<open>awayTeamId\<close>. \<open>homeFinished\<close> and \<open>awayFinished\<close> are
  the two \<^verbatim>\<open>where\<close> clauses of each query, applied to the collection; they compare
  with the identifier as the request gave it.
\<close>

definition homeFinished :: "string \<Rightarrow> 'm Match_scheme list \<Rightarrow> 'm Match_scheme list" where
  "homeFinished tid ms = filter (\<lambda>m. homeTeamId m = tid \<and> Match.status m = Finished) ms"

definition awayFinished :: "string \<Rightarrow> 'm Match_scheme list \<Rightarrow> 'm Match_scheme list" where
  "awayFinished tid ms = filter (\<lambda>m. awayTeamId m = tid \<and> Match.status m = Finished) ms"

definition queryHomeMatches ::
  "string \<Rightarrow> ('t, 'm) world \<Rightarrow> (error + 'm Match_scheme list) \<times> ('t, 'm) world" where
  "queryHomeMatches tid w =
     (case issue (QueryHome tid) w of
        (ok, w') \<Rightarrow>
          if ok then (Inr (homeFinished tid (matches w')), w') else (Inl FirestoreError, w'))"

definition queryAwayMatches ::
  "string \<Rightarrow> ('t, 'm) world \<Rightarrow> (error + 'm Match_scheme list) \<times> ('t, 'm) world" where
  "queryAwayMatches tid w =
     (case issue (QueryAway tid) w of
        (ok, w') \<Rightarrow>
          if ok then (Inr (awayFinished tid (matches w')), w') else (Inl FirestoreError, w'))"

text \<open>
  \<^verbatim>\<open>db.collection(TEAMS).doc(teamId).update({ stats, updatedAt: new Date() })\<close>: the
  two fields are merged into the document the path resolves to; updating a document
  that does not exist is rejected by the store.
\<close>

definition updateTeamDoc ::
  "string \<Rightarrow> TeamStats \<Rightarrow> ('t, 'm) world \<Rightarrow> (error + unit) \<times> ('t, 'm) world" where
  "updateTeamDoc tid s w =
     (case docRef tid of
        None \<Rightarrow> (Inl InvalidPath, w)
      | Some p \<Rightarrow>
          (case issue (UpdateTeam p) w of
             (ok, w') \<Rightarrow>
               if ok then
                 (case teams w' p of
                    None \<Rightarrow> (Inl FirestoreError, w')
                  | Some t \<Rightarrow>
                      (Inr (), w'\<lparr>teams := (teams w')(p \<mapsto> t\<lparr>Team.stats := s, updatedAt := clock w'\<rparr>)\<rparr>))
               else (Inl FirestoreError, w')))"

section \<open>Utility functions\<close>

definition getAuthContext :: "CallableRequest \<Rightarrow> error + AuthContext" where
  "getAuthContext context =
     (case auth context of
        None \<Rightarrow> Inl (HttpsError Unauthenticated ''Authentication required'')
      | Some a \<Rightarrow>
          Inr \<lparr>uid = AuthData.uid a,
               email = AuthToken.email (token a),
               emailVerified = email_verified (token a)\<rparr>)"

text \<open>
  \<^verbatim>\<open>hasClubPermission\<close>: the \<^verbatim>\<open>catch\<close> turns a failed read, and a path the
  client refuses, into \<open>False\<close>. The parameter \<^verbatim>\<open>requiredRole\<close> is not used by
  the body.
\<close>

definition hasClubPermission ::
  "string \<Rightarrow> string \<Rightarrow> ('t, 'm) world \<Rightarrow> bool \<times> ('t, 'm) world" where
  "hasClubPermission usr cid w =
     (case getMembershipDoc cid usr w of
        (Inl e, w') \<Rightarrow> (False, w')
      | (Inr membershipDoc, w') \<Rightarrow>
          (case membershipDoc of
             None \<Rightarrow> (False, w')
           | Some membership \<Rightarrow> (ClubMembership.status membership = Active, w')))"

section \<open>Team statistics\<close>

text \<open>
  The five counters of the handler, \<^verbatim>\<open>let wins = 0\<close> to
  \<^verbatim>\<open>let goalsAgainst = 0\<close>; \<^verbatim>\<open>+=\<close> and \<^verbatim>\<open>++\<close> add as doubles do.
\<close>

record counters =
  c_wins :: number
  c_draws :: number
  c_losses :: number
  c_goalsFor :: number
  c_goalsAgainst :: number

definition counters0 :: counters where
  "counters0 = \<lparr>c_wins = Num 0, c_draws = Num 0, c_losses = Num 0, c_goalsFor = Num 0,
     c_goalsAgainst = Num 0\<rparr>"

text \<open>The body of \<^verbatim>\<open>matchesSnapshot.docs.forEach\<close> (home matches).\<close>

definition processHome :: "'m Match_scheme \<Rightarrow> counters \<Rightarrow> counters" where
  "processHome match c =
     (case result match of
        None \<Rightarrow> c
      | Some r \<Rightarrow>
          (let c1 = c\<lparr>c_goalsFor := jsAdd (c_goalsFor c) (homeGoals r),
                      c_goalsAgainst := jsAdd (c_goalsAgainst c) (awayGoals r)\<rparr>
           in if jsGt (homeGoals r) (awayGoals r) then c1\<lparr>c_wins := jsAdd (c_wins c1) (Num 1)\<rparr>
              else if jsEq (homeGoals r) (awayGoals r) then c1\<lparr>c_draws := jsAdd (c_draws c1) (Num 1)\<rparr>
              else c1\<lparr>c_losses := jsAdd (c_losses c1) (Num 1)\<rparr>))"

text \<open>The body of \<^verbatim>\<open>awayMatchesSnapshot.docs.forEach\<close> (away matches).\<close>

definition processAway :: "'m Match_scheme \<Rightarrow> counters \<Rightarrow> counters" where
  "processAway match c =
     (case result match of
        None \<Rightarrow> c
      | Some r \<Rightarrow>
          (let c1 = c\<lparr>c_goalsFor := jsAdd (c_goalsFor c) (awayGoals r),
                      c_goalsAgainst := jsAdd (c_goalsAgainst c) (homeGoals r)\<rparr>
           in if jsGt (awayGoals r) (homeGoals r) then c1\<lparr>c_wins := jsAdd (c_wins c1) (Num 1)\<rparr>
              else if jsEq (awayGoals r) (homeGoals r) then c1\<lparr>c_draws := jsAdd (c_draws c1) (Num 1)\<rparr>
              else c1\<lparr>c_losses := jsAdd (c_losses c1) (Num 1)\<rparr>))"

text \<open>
  The statistics the handler builds from the two snapshots: both \<^verbatim>\<open>forEach\<close> loops,
  then \<^verbatim>\<open>matchesPlayed\<close>, \<^verbatim>\<open>points\<close> and the \<^verbatim>\<open>stats\<close> object.
\<close>

definition buildStats :: "'m Match_scheme list \<Rightarrow> 'm Match_scheme list \<Rightarrow> TeamStats" where
  "buildStats matchesSnapshot awayMatchesSnapshot =
     (let c = fold processAway awayMatchesSnapshot (fold processHome matchesSnapshot counters0);
          matchesPlayed = jsAdd (jsAdd (c_wins c) (c_draws c)) (c_losses c);
          points = jsAdd (jsMul (c_wins c) (Num 3)) (c_draws c)
      in \<lparr>matchesPlayed = matchesPlayed,
          wins = c_wins c,
          draws = c_draws c,
          losses = c_losses c,
          goalsFor = c_goalsFor c,
          goalsAgainst = c_goalsAgainst c,
          points = points,
          currentStreak = \<lparr>type = Win, count = Num 0\<rparr>\<rparr>)"

text \<open>The body of the \<^verbatim>\<open>try\<close> block of \<^verbatim>\<open>calculateTeamStats\<close>.\<close>

definition calculateTeamStats_try ::
  "CallableRequest \<Rightarrow> ('t, 'm) world \<Rightarrow> (error + Response) \<times> ('t, 'm) world" where
  "calculateTeamStats_try request w =
     (case getAuthContext request of
        Inl e \<Rightarrow> (Inl e, w)
      | Inr a \<Rightarrow>
          (case data request of
             None \<Rightarrow> (Inl TypeError, w)
           | Some d \<Rightarrow>
           (case teamId d of
              None \<Rightarrow> (Inl (HttpsError InvalidArgument ''Team ID is required''), w)
            | Some tid \<Rightarrow>
               if tid = [] then (Inl (HttpsError InvalidArgument ''Team ID is required''), w)
               else
                 (case getTeamDoc tid w of
                    (Inl e, w1) \<Rightarrow> (Inl e, w1)
                  | (Inr teamDoc, w1) \<Rightarrow>
                      (case teamDoc of
                         None \<Rightarrow> (Inl (HttpsError NotFound ''Team not found''), w1)
                       | Some team \<Rightarrow>
                           (case hasClubPermission (AuthContext.uid a) (Team.clubId team) w1 of
                              (hasPermission, w2) \<Rightarrow>
                                if \<not> hasPermission
                                then (Inl (HttpsError PermissionDenied ''No access to this team''), w2)
                                else
                                  (case queryHomeMatches tid w2 of
                                     (Inl e, w3) \<Rightarrow> (Inl e, w3)
                                   | (Inr matchesSnapshot, w3) \<Rightarrow>
                                       (case queryAwayMatches tid w3 of
                                          (Inl e, w4) \<Rightarrow> (Inl e, w4)
                                        | (Inr awayMatchesSnapshot, w4) \<Rightarrow>
                                            (let stats = buildStats matchesSnapshot awayMatchesSnapshot
                                             in case updateTeamDoc tid stats w4 of
                                                  (Inl e, w5) \<Rightarrow> (Inl e, w5)
                                                | (Inr u, w5) \<Rightarrow>
                                                    (Inr \<lparr>success = True, stats = stats\<rparr>, w5))))))))))"

text \<open>
  \<^verbatim>\<open>calculateTeamStats\<close> with its \<^verbatim>\<open>catch\<close>: an \<^verbatim>\<open>HttpsError\<close> is thrown
  again, anything else becomes the \<^verbatim>\<open>internal\<close> error.
\<close>

definition calculateTeamStats ::
  "CallableRequest \<Rightarrow> ('t, 'm) world \<Rightarrow> (error + Response) \<times> ('t, 'm) world" where
  "calculateTeamStats request w =
     (case calculateTeamStats_try request w of
        (Inl (HttpsError code msg), w') \<Rightarrow> (Inl (HttpsError code msg), w')
      | (Inl FirestoreError, w') \<Rightarrow> (Inl (HttpsError Internal ''Failed to calculate team stats''), w')
      | (Inl InvalidPath, w') \<Rightarrow> (Inl (HttpsError Internal ''Failed to calculate team stats''), w')
      | (Inl TypeError, w') \<Rightarrow> (Inl (HttpsError Internal ''Failed to calculate team stats''), w')
      | (Inr r, w') \<Rightarrow> (Inr r, w'))"

section \<open>Notions used to state the properties\<close>










text \<open>
  A match with the two penalty counts of its result removed: two matches differ in
  their penalty fields only when \<open>erasePenalties\<close> maps them to the same match.
\<close>

definition erasePenalties :: "'m Match_scheme \<Rightarrow> 'm Match_scheme" where
  "erasePenalties m =
     m\<lparr>result := map_option (\<lambda>r. r\<lparr>homeTeamPenalties := None, awayTeamPenalties := None\<rparr>) (result m)\<rparr>"

text \<open>
  The statistics the handler computes for the team identifier \<open>tid\<close> when the
  \<^verbatim>\<open>matches\<close> collection is \<open>ms\<close>: the two queries, then the loops and the
  \<^verbatim>\<open>stats\<close> object.
\<close>

definition teamStats :: "string \<Rightarrow> 'm Match_scheme list \<Rightarrow> TeamStats" where
  "teamStats tid ms = buildStats (homeFinished tid ms) (awayFinished tid ms)"

text \<open>The store calls an invocation issued, given the world before and after it.\<close>

definition issued :: "('t, 'm) world \<Rightarrow> ('t, 'm) world \<Rightarrow> store_call list" where
  "issued w w' = drop (length (calls w)) (calls w')"

section \<open>A small club, for concrete runs\<close>

definition noStats :: TeamStats where
  "noStats = \<lparr>matchesPlayed = Num 0, wins = Num 0, draws = Num 0, losses = Num 0,
     goalsFor = Num 0, goalsAgainst = Num 0, points = Num 0,
     currentStreak = \<lparr>type = Win, count = Num 0\<rparr>\<rparr>"

definition demoTeam :: "string \<Rightarrow> Team" where
  "demoTeam tid = \<lparr>id = tid, createdAt = 100, updatedAt = 100, version = Num 1,
     createdBy = ''u1'', updatedBy = ''u1'', Team.clubId = ''c1'', name = tid,
     season = ''2024'', players = [''p1'', ''p2''], Team.stats = noStats\<rparr>"

definition demoMember :: ClubMembership where
  "demoMember = \<lparr>id = ''u1'', createdAt = 50, updatedAt = 50, version = Num 1,
     ClubMembership.clubId = ''c1'', userId = ''u1'', ClubMembership.status = Active, joinedAt = 50,
     approvedBy = Some ''u1'', approvedAt = Some 50\<rparr>"

definition demoMatch :: "string \<Rightarrow> string \<Rightarrow> string \<Rightarrow> MatchStatus \<Rightarrow> MatchResult option \<Rightarrow> Match" where
  "demoMatch mid h a st res = \<lparr>id = mid, createdAt = 200, updatedAt = 200, version = Num 1,
     createdBy = ''u1'', updatedBy = ''u1'', clubId = ''c1'', homeTeamId = h, awayTeamId = a,
     date = 300, status = st, result = res\<rparr>"

definition score :: "int \<Rightarrow> int \<Rightarrow> MatchResult" where
  "score h a = \<lparr>homeGoals = Num h, awayGoals = Num a, homeTeamPenalties = None,
     awayTeamPenalties = None, notes' = None\<rparr>"

definition shootout :: "int \<Rightarrow> int \<Rightarrow> int \<Rightarrow> int \<Rightarrow> MatchResult" where
  "shootout h a hp ap = \<lparr>homeGoals = Num h, awayGoals = Num a, homeTeamPenalties = Some (Num hp),
     awayTeamPenalties = Some (Num ap), notes' = None\<rparr>"

definition homeWin :: Match where
  "homeWin = demoMatch ''m1'' ''A'' ''B'' Finished (Some (score 3 1))"

definition awayDraw :: Match where
  "awayDraw = demoMatch ''m2'' ''B'' ''A'' Finished (Some (shootout 2 2 4 5))"

definition plainDraw :: Match where
  "plainDraw = demoMatch ''m2'' ''B'' ''A'' Finished (Some (score 2 2))"

definition noResult :: Match where
  "noResult = demoMatch ''m3'' ''A'' ''B'' Finished None"

definition upcoming :: Match where
  "upcoming = demoMatch ''m4'' ''A'' ''B'' Scheduled None"




definition demoWorld :: "(unit, unit) world" where
  "demoWorld = \<lparr>teams = [[''A''] \<mapsto> demoTeam ''A'', [''B''] \<mapsto> demoTeam ''B''],
     members = [[''c1'', ''members'', ''u1''] \<mapsto> demoMember],
     matches = [homeWin, awayDraw, noResult, upcoming],
     clock = 1000, outage = (\<lambda>n. False), calls = []\<rparr>"

definition demoRequest :: "string \<Rightarrow> CallableRequest" where
  "demoRequest tid =
     \<lparr>auth = Some \<lparr>AuthData.uid = ''u1'', token = \<lparr>AuthToken.email = None, email_verified = None\<rparr>\<rparr>,
     data = Some \<lparr>teamId = Some tid\<rparr>\<rparr>"

text \<open>The same request from a caller who is not signed in.\<close>

definition anonymousRequest :: "string \<Rightarrow> CallableRequest" where
  "anonymousRequest tid = \<lparr>auth = None, data = Some \<lparr>teamId = Some tid\<rparr>\<rparr>"

text \<open>What the four matches of the small club give team \<open>A\<close>.\<close>

definition statsA :: TeamStats where
  "statsA = \<lparr>matchesPlayed = Num 2, wins = Num 1, draws = Num 1, losses = Num 0, goalsFor = Num 5,
     goalsAgainst = Num 3, points = Num 4, currentStreak = \<lparr>type = Win, count = Num 0\<rparr>\<rparr>"

text \<open>What they give team \<open>B\<close>.\<close>

definition statsB :: TeamStats where
  "statsB = \<lparr>matchesPlayed = Num 2, wins = Num 0, draws = Num 1, losses = Num 1, goalsFor = Num 3,
     goalsAgainst = Num 5, points = Num 1, currentStreak = \<lparr>type = Win, count = Num 0\<rparr>\<rparr>"


definition membersDown :: "(unit, unit) world" where
  "membersDown = demoWorld\<lparr>outage := (\<lambda>n. n = 1)\<rparr>"

definition writeDown :: "(unit, unit) world" where
  "writeDown = demoWorld\<lparr>outage := (\<lambda>n. n = 4)\<rparr>"

section \<open>Rounding\<close>

lemma expo_small: "a < 2 ^ 53 \<Longrightarrow> expo a = 0"
  by (simp add: expo.simps)

lemma roundNumber_exact:
  assumes "\<bar>x\<bar> \<le> 2 ^ 53"
  shows "roundNumber x = Num x"
proof (cases "\<bar>x\<bar> = 2 ^ 53")
  case True
  then have a: "nat \<bar>x\<bar> = 9007199254740992"
    by simp
  have e: "expo 9007199254740992 = 1"
    by (simp add: expo.simps [of 9007199254740992] expo_small)
  have lt: "(9007199254740992::nat) < 2 ^ 1024"
    by simp
  show ?thesis
    using True lt by (auto simp: roundNumber_def Let_def a e)
next
  case False
  with assms have "nat \<bar>x\<bar> < 2 ^ 53"
    by (simp add: nat_less_iff)
  moreover have "(2::nat) ^ 53 < 2 ^ 1024"
    by (rule power_strict_increasing) simp_all
  ultimately show ?thesis
    unfolding roundNumber_def by (auto simp: Let_def expo_small)
qed



lemma jsAdd_exact:
  assumes "0 \<le> a" "0 \<le> b" "a + b \<le> 2 ^ 53"
  shows "jsAdd (Num a) (Num b) = Num (a + b)"
  using assms by (simp add: roundNumber_exact)

lemma jsMul_exact:
  assumes "0 \<le> a" "0 \<le> b" "a * b \<le> 2 ^ 53"
  shows "jsMul (Num a) (Num b) = Num (a * b)"
  using assms by (simp add: jsMul_def roundNumber_exact)

section \<open>The handler, path by path\<close>

text \<open>
  The handler as one decision tree over the request, the store and the outages: which
  error or response each path returns, and the world it leaves.
\<close>

lemmas store_defs = issue_def getTeamDoc_def getMembershipDoc_def queryHomeMatches_def
  queryAwayMatches_def updateTeamDoc_def hasClubPermission_def getAuthContext_def

lemma calculateTeamStats_unfold:
  "calculateTeamStats req w =
    (case auth req of
       None \<Rightarrow> (Inl (HttpsError Unauthenticated ''Authentication required''), w)
     | Some a \<Rightarrow>
      (case Option.bind (data req) teamId of
         None \<Rightarrow>
           (if data req = None then (Inl (HttpsError Internal ''Failed to calculate team stats''), w)
            else (Inl (HttpsError InvalidArgument ''Team ID is required''), w))
       | Some tid \<Rightarrow>
          if tid = [] then (Inl (HttpsError InvalidArgument ''Team ID is required''), w)
          else
          (case docRef tid of
             None \<Rightarrow> (Inl (HttpsError Internal ''Failed to calculate team stats''), w)
           | Some p \<Rightarrow>
          if outage w (length (calls w))
          then (Inl (HttpsError Internal ''Failed to calculate team stats''),
                w\<lparr>calls := calls w @ [GetTeam p]\<rparr>)
          else
           (case teams w p of
              None \<Rightarrow> (Inl (HttpsError NotFound ''Team not found''),
                        w\<lparr>calls := calls w @ [GetTeam p]\<rparr>)
            | Some team \<Rightarrow>
              (case memberRef (Team.clubId team) (AuthData.uid a) of
                 None \<Rightarrow> (Inl (HttpsError PermissionDenied ''No access to this team''),
                           w\<lparr>calls := calls w @ [GetTeam p]\<rparr>)
               | Some mp \<Rightarrow>
               if outage w (length (calls w) + 1) \<or>
                  (case members w mp of
                     None \<Rightarrow> True | Some m \<Rightarrow> ClubMembership.status m \<noteq> Active)
               then (Inl (HttpsError PermissionDenied ''No access to this team''),
                     w\<lparr>calls := calls w @ [GetTeam p, GetMember mp]\<rparr>)
               else if outage w (length (calls w) + 2)
               then (Inl (HttpsError Internal ''Failed to calculate team stats''),
                     w\<lparr>calls := calls w @ [GetTeam p, GetMember mp, QueryHome tid]\<rparr>)
               else if outage w (length (calls w) + 3)
               then (Inl (HttpsError Internal ''Failed to calculate team stats''),
                     w\<lparr>calls := calls w @ [GetTeam p, GetMember mp, QueryHome tid, QueryAway tid]\<rparr>)
               else if outage w (length (calls w) + 4)
               then (Inl (HttpsError Internal ''Failed to calculate team stats''),
                     w\<lparr>calls := calls w @ [GetTeam p, GetMember mp, QueryHome tid, QueryAway tid,
                                              UpdateTeam p]\<rparr>)
               else
                (let s = buildStats (homeFinished tid (matches w)) (awayFinished tid (matches w))
                 in (Inr \<lparr>success = True, stats = s\<rparr>,
                     w\<lparr>calls := calls w @ [GetTeam p, GetMember mp, QueryHome tid, QueryAway tid,
                                            UpdateTeam p],
                       teams := (teams w)(p \<mapsto> team\<lparr>Team.stats := s, updatedAt := clock w\<rparr>)\<rparr>)))))))"
  by (simp add: calculateTeamStats_def calculateTeamStats_try_def store_defs Let_def numeral_eq_Suc
           split: option.splits)

lemma calculateTeamStats_success:
  assumes "calculateTeamStats req w = (Inr r, w')"
  shows "\<exists>a tid p team mp m. auth req = Some a \<and> Option.bind (data req) teamId = Some tid \<and>
     tid \<noteq> [] \<and> docRef tid = Some p \<and> teams w p = Some team \<and>
     memberRef (Team.clubId team) (AuthData.uid a) = Some mp \<and>
     members w mp = Some m \<and> ClubMembership.status m = Active \<and>
     r = \<lparr>success = True,
          stats = buildStats (homeFinished tid (matches w)) (awayFinished tid (matches w))\<rparr> \<and>
     teams w' = (teams w)(p \<mapsto> team\<lparr>Team.stats := Response.stats r, updatedAt := clock w\<rparr>) \<and>
     members w' = members w \<and> matches w' = matches w \<and> clock w' = clock w \<and> outage w' = outage w \<and>
     calls w' = calls w @ [GetTeam p, GetMember mp, QueryHome tid, QueryAway tid, UpdateTeam p] \<and>
     \<not> outage w (length (calls w)) \<and> \<not> outage w (length (calls w) + 1) \<and>
     \<not> outage w (length (calls w) + 2) \<and> \<not> outage w (length (calls w) + 3) \<and>
     \<not> outage w (length (calls w) + 4)"
  using assms unfolding calculateTeamStats_unfold
  by (auto simp: Let_def split: option.splits if_splits)


lemma calculateTeamStats_ok:
  assumes "auth req = Some a" "Option.bind (data req) teamId = Some tid" "tid \<noteq> []"
    "docRef tid = Some p" "teams w p = Some team"
    "memberRef (Team.clubId team) (AuthData.uid a) = Some mp"
    "members w mp = Some m" "ClubMembership.status m = Active"
    "\<not> outage w (length (calls w))" "\<not> outage w (length (calls w) + 1)"
    "\<not> outage w (length (calls w) + 2)" "\<not> outage w (length (calls w) + 3)"
    "\<not> outage w (length (calls w) + 4)"
  shows "calculateTeamStats req w =
     (Inr \<lparr>success = True, stats = teamStats tid (matches w)\<rparr>,
      w\<lparr>calls := calls w @ [GetTeam p, GetMember mp, QueryHome tid, QueryAway tid, UpdateTeam p],
        teams := (teams w)(p \<mapsto> team\<lparr>Team.stats := teamStats tid (matches w), updatedAt := clock w\<rparr>)\<rparr>)"
  unfolding calculateTeamStats_unfold using assms
  by (simp add: Let_def teamStats_def)

lemma calculateTeamStats_stats:
  assumes "calculateTeamStats req w = (Inr r, w')" "Option.bind (data req) teamId = Some tid"
  shows "Response.stats r = teamStats tid (matches w)"
  using calculateTeamStats_success [OF assms(1)] assms(2) by (auto simp: teamStats_def)

lemma calculateTeamStats_matches_cong:
  assumes "\<And>tid. Option.bind (data req) teamId = Some tid \<Longrightarrow> teamStats tid ms = teamStats tid ms'"
  shows "fst (calculateTeamStats req (w\<lparr>matches := ms\<rparr>)) = fst (calculateTeamStats req (w\<lparr>matches := ms'\<rparr>)) \<and>
         teams (snd (calculateTeamStats req (w\<lparr>matches := ms\<rparr>))) =
         teams (snd (calculateTeamStats req (w\<lparr>matches := ms'\<rparr>)))"
  unfolding calculateTeamStats_unfold using assms
  by (simp add: Let_def teamStats_def split: option.splits)



lemma calculateTeamStats_paths [case_names rejected team_read_failed not_found denied_unread
    denied home_query_failed away_query_failed write_failed served]:
  assumes rejected: "\<And>e. calculateTeamStats req w = (Inl e, w) \<Longrightarrow> thesis"
    and team_read_failed: "\<And>p. outage w (length (calls w)) \<Longrightarrow>
      calculateTeamStats req w =
        (Inl (HttpsError Internal ''Failed to calculate team stats''),
         w\<lparr>calls := calls w @ [GetTeam p]\<rparr>) \<Longrightarrow> thesis"
    and not_found: "\<And>p. \<not> outage w (length (calls w)) \<Longrightarrow>
      calculateTeamStats req w =
        (Inl (HttpsError NotFound ''Team not found''), w\<lparr>calls := calls w @ [GetTeam p]\<rparr>) \<Longrightarrow> thesis"
    and denied_unread: "\<And>p. \<not> outage w (length (calls w)) \<Longrightarrow>
      calculateTeamStats req w =
        (Inl (HttpsError PermissionDenied ''No access to this team''),
         w\<lparr>calls := calls w @ [GetTeam p]\<rparr>) \<Longrightarrow> thesis"
    and denied: "\<And>p mp. \<not> outage w (length (calls w)) \<Longrightarrow>
      calculateTeamStats req w =
        (Inl (HttpsError PermissionDenied ''No access to this team''),
         w\<lparr>calls := calls w @ [GetTeam p, GetMember mp]\<rparr>) \<Longrightarrow> thesis"
    and home_query_failed: "\<And>tid p mp. \<not> outage w (length (calls w)) \<Longrightarrow>
      \<not> outage w (length (calls w) + 1) \<Longrightarrow> outage w (length (calls w) + 2) \<Longrightarrow>
      calculateTeamStats req w =
        (Inl (HttpsError Internal ''Failed to calculate team stats''),
         w\<lparr>calls := calls w @ [GetTeam p, GetMember mp, QueryHome tid]\<rparr>) \<Longrightarrow> thesis"
    and away_query_failed: "\<And>tid p mp. \<not> outage w (length (calls w)) \<Longrightarrow>
      \<not> outage w (length (calls w) + 1) \<Longrightarrow> \<not> outage w (length (calls w) + 2) \<Longrightarrow>
      outage w (length (calls w) + 3) \<Longrightarrow>
      calculateTeamStats req w =
        (Inl (HttpsError Internal ''Failed to calculate team stats''),
         w\<lparr>calls := calls w @ [GetTeam p, GetMember mp, QueryHome tid, QueryAway tid]\<rparr>) \<Longrightarrow> thesis"
    and write_failed: "\<And>tid p mp. \<not> outage w (length (calls w)) \<Longrightarrow>
      \<not> outage w (length (calls w) + 1) \<Longrightarrow> \<not> outage w (length (calls w) + 2) \<Longrightarrow>
      \<not> outage w (length (calls w) + 3) \<Longrightarrow> outage w (length (calls w) + 4) \<Longrightarrow>
      calculateTeamStats req w =
        (Inl (HttpsError Internal ''Failed to calculate team stats''),
         w\<lparr>calls := calls w @ [GetTeam p, GetMember mp, QueryHome tid, QueryAway tid,
                                 UpdateTeam p]\<rparr>) \<Longrightarrow> thesis"
    and served: "\<And>tid p mp r ts. \<not> outage w (length (calls w)) \<Longrightarrow>
      \<not> outage w (length (calls w) + 1) \<Longrightarrow> \<not> outage w (length (calls w) + 2) \<Longrightarrow>
      \<not> outage w (length (calls w) + 3) \<Longrightarrow> \<not> outage w (length (calls w) + 4) \<Longrightarrow>
      calculateTeamStats req w =
        (Inr r, w\<lparr>calls := calls w @ [GetTeam p, GetMember mp, QueryHome tid, QueryAway tid,
                                        UpdateTeam p], teams := ts\<rparr>) \<Longrightarrow> thesis"
  shows thesis
proof (cases "auth req")
  case None
  then show ?thesis
    by (intro rejected) (simp add: calculateTeamStats_unfold)
next
  case a: (Some a)
  show ?thesis
  proof (cases "Option.bind (data req) teamId")
    case n: None
    show ?thesis
    proof (cases "data req")
      case None
      with a n show ?thesis
        by (intro rejected) (simp add: calculateTeamStats_unfold)
    next
      case (Some d)
      with a n show ?thesis
        by (intro rejected) (simp add: calculateTeamStats_unfold)
    qed
  next
    case t: (Some tid)
    show ?thesis
    proof (cases "tid = []")
      case True
      with a t show ?thesis
        by (intro rejected) (simp add: calculateTeamStats_unfold)
    next
      case ne: False
      show ?thesis
      proof (cases "docRef tid")
        case None
        with a t ne show ?thesis
          by (intro rejected) (simp add: calculateTeamStats_unfold)
      next
        case p: (Some p)
        show ?thesis
        proof (cases "outage w (length (calls w))")
          case True
          with a t ne p show ?thesis
            by (intro team_read_failed [of p]) (simp_all add: calculateTeamStats_unfold)
        next
          case o0: False
          show ?thesis
          proof (cases "teams w p")
            case None
            with a t ne p o0 show ?thesis
              by (intro not_found [of p]) (simp_all add: calculateTeamStats_unfold)
          next
            case tm: (Some team)
            show ?thesis
            proof (cases "memberRef (Team.clubId team) (AuthData.uid a)")
              case None
              with a t ne p o0 tm show ?thesis
                by (intro denied_unread [of p]) (simp_all add: calculateTeamStats_unfold)
            next
              case mp: (Some mp)
              show ?thesis
              proof (cases "outage w (length (calls w) + 1) \<or>
                  (case members w mp of None \<Rightarrow> True | Some m \<Rightarrow> ClubMembership.status m \<noteq> Active)")
                case True
                with a t ne p o0 tm mp show ?thesis
                  by (intro denied [of p mp]) (simp_all add: calculateTeamStats_unfold)
              next
                case False
                then have o1: "\<not> outage w (length (calls w) + 1)"
                  and mem: "\<not> (case members w mp of None \<Rightarrow> True
                                | Some m \<Rightarrow> ClubMembership.status m \<noteq> Active)"
                  by simp_all
                show ?thesis
                proof (cases "outage w (length (calls w) + 2)")
                  case True
                  with a t ne p o0 tm mp o1 mem show ?thesis
                    by (intro home_query_failed [of p mp tid]) (simp_all add: calculateTeamStats_unfold)
                next
                  case o2: False
                  show ?thesis
                  proof (cases "outage w (length (calls w) + 3)")
                    case True
                    with a t ne p o0 tm mp o1 mem o2 show ?thesis
                      by (intro away_query_failed [of p mp tid]) (simp_all add: calculateTeamStats_unfold)
                  next
                    case o3: False
                    show ?thesis
                    proof (cases "outage w (length (calls w) + 4)")
                      case True
                      with a t ne p o0 tm mp o1 mem o2 o3 show ?thesis
                        by (intro write_failed [of p mp tid]) (simp_all add: calculateTeamStats_unfold)
                    next
                      case o4: False
                      with a t ne p o0 tm mp o1 mem o2 o3 show ?thesis
                        by (intro served [where tid = tid and p = p and mp = mp])
                           (simp_all add: calculateTeamStats_unfold Let_def)
                    qed
                  qed
                qed
              qed
            qed
          qed
        qed
      qed
    qed
  qed
qed

section \<open>The two loops in the exact range\<close>


lemma processHome_None: "result m = None \<Longrightarrow> processHome m c = c"
  by (simp add: processHome_def)

lemma processAway_None: "result m = None \<Longrightarrow> processAway m c = c"
  by (simp add: processAway_def)






section \<open>Skipped matches, order and penalty counts\<close>

lemma teamStats_skip:
  assumes "result m = None"
  shows "teamStats tid (xs @ m # ys) = teamStats tid (xs @ ys)"
  by (simp add: teamStats_def buildStats_def homeFinished_def awayFinished_def
      processHome_None processAway_None assms)









lemma processHome_erasePenalties: "processHome (erasePenalties m) = processHome m"
  by (rule ext) (simp add: processHome_def erasePenalties_def Let_def split: option.splits)

lemma processAway_erasePenalties: "processAway (erasePenalties m) = processAway m"
  by (rule ext) (simp add: processAway_def erasePenalties_def Let_def split: option.splits)

lemma fold_processHome_erase: "fold processHome (map erasePenalties ms) c = fold processHome ms c"
  by (induction ms arbitrary: c) (simp_all add: processHome_erasePenalties)

lemma fold_processAway_erase: "fold processAway (map erasePenalties ms) c = fold processAway ms c"
  by (induction ms arbitrary: c) (simp_all add: processAway_erasePenalties)

lemma homeFinished_erase:
  "homeFinished tid (map erasePenalties ms) = map erasePenalties (homeFinished tid ms)"
  by (induction ms) (simp_all add: homeFinished_def erasePenalties_def)

lemma awayFinished_erase:
  "awayFinished tid (map erasePenalties ms) = map erasePenalties (awayFinished tid ms)"
  by (induction ms) (simp_all add: awayFinished_def erasePenalties_def)

lemma teamStats_erase: "teamStats tid (map erasePenalties ms) = teamStats tid ms"
  by (simp add: teamStats_def buildStats_def homeFinished_erase awayFinished_erase
      fold_processHome_erase fold_processAway_erase)

section \<open>Runs on the small club\<close>

lemmas demo_defs = demoWorld_def demoRequest_def demoTeam_def demoMember_def demoMatch_def
  homeWin_def awayDraw_def noResult_def upcoming_def score_def shootout_def noStats_def

lemma demo_paths:
  "docRef ''A'' = Some [''A'']" "docRef ''B'' = Some [''B'']" "docRef ''Z'' = Some [''Z'']"
  "docRef ''Z/y'' = None" "docRef ''A/'' = Some [''A'']"
  "memberRef ''c1'' ''u1'' = Some [''c1'', ''members'', ''u1'']"
  by (simp_all add: docRef_def memberRef_def)

lemma demo_fields:
  "auth (demoRequest t) = Some \<lparr>AuthData.uid = ''u1'', token = \<lparr>AuthToken.email = None, email_verified = None\<rparr>\<rparr>"
  "Option.bind (data (demoRequest t)) teamId = Some t"
  "auth (anonymousRequest t) = None"
  "Option.bind (data (anonymousRequest t)) teamId = Some t"
  "teams demoWorld [''A''] = Some (demoTeam ''A'')"
  "teams demoWorld [''B''] = Some (demoTeam ''B'')"
  "teams demoWorld [''Z''] = None"
  "Team.clubId (demoTeam t) = ''c1''"
  "members demoWorld [''c1'', ''members'', ''u1''] = Some demoMember"
  "ClubMembership.status demoMember = Active"
  "outage demoWorld n = False"
  "calls demoWorld = []"
  "clock demoWorld = 1000"
  by (simp_all add: demo_defs anonymousRequest_def)

lemma small_numbers:
  "roundNumber 0 = Num 0" "roundNumber 1 = Num 1" "roundNumber 2 = Num 2" "roundNumber 3 = Num 3"
  "roundNumber 4 = Num 4" "roundNumber 5 = Num 5"
  by (simp_all add: roundNumber_exact)

lemma demo_homeFinished_A: "homeFinished ''A'' (matches demoWorld) = [homeWin, noResult]"
  by (simp add: homeFinished_def demo_defs)

lemma demo_awayFinished_A: "awayFinished ''A'' (matches demoWorld) = [awayDraw]"
  by (simp add: awayFinished_def demo_defs)

lemma demo_stats_A: "buildStats [homeWin, noResult] [awayDraw] = statsA"
  by (simp add: buildStats_def processHome_def processAway_def counters0_def statsA_def demo_defs
      Let_def jsEq_def jsMul_def small_numbers)

lemma demo_teamStats_A: "teamStats ''A'' (matches demoWorld) = statsA"
  by (simp add: teamStats_def demo_homeFinished_A demo_awayFinished_A demo_stats_A)

lemma demo_teamStats_B: "teamStats ''B'' (matches demoWorld) = statsB"
  by (simp add: teamStats_def homeFinished_def awayFinished_def buildStats_def processHome_def
      processAway_def counters0_def statsB_def demo_defs Let_def jsEq_def jsMul_def small_numbers)

lemma demo_run_ok:
  assumes "docRef tid = Some p" "teams w p = Some (demoTeam tid)" "members w = members demoWorld"
    "\<not> outage w (length (calls w))" "\<not> outage w (length (calls w) + 1)"
    "\<not> outage w (length (calls w) + 2)" "\<not> outage w (length (calls w) + 3)"
    "\<not> outage w (length (calls w) + 4)"
  shows "calculateTeamStats (demoRequest tid) w =
     (Inr \<lparr>success = True, stats = teamStats tid (matches w)\<rparr>,
      w\<lparr>calls := calls w @ [GetTeam p, GetMember [''c1'', ''members'', ''u1''], QueryHome tid,
                             QueryAway tid, UpdateTeam p],
        teams := (teams w)(p \<mapsto> (demoTeam tid)\<lparr>Team.stats := teamStats tid (matches w),
                                                updatedAt := clock w\<rparr>)\<rparr>)"
proof -
  have ne: "tid \<noteq> []"
    using assms(1) by (auto simp: docRef_def)
  show ?thesis
    using calculateTeamStats_ok [of "demoRequest tid" _ tid p w "demoTeam tid"
        "[''c1'', ''members'', ''u1'']" demoMember] assms ne
    by (simp add: demo_fields demo_paths)
qed

lemma demo_run_A:
  "calculateTeamStats (demoRequest ''A'') demoWorld =
     (Inr \<lparr>success = True, stats = statsA\<rparr>,
      demoWorld\<lparr>calls := [GetTeam [''A''], GetMember [''c1'', ''members'', ''u1''], QueryHome ''A'',
                           QueryAway ''A'', UpdateTeam [''A'']],
                teams := (teams demoWorld)([''A''] \<mapsto> (demoTeam ''A'')\<lparr>Team.stats := statsA, updatedAt := 1000\<rparr>)\<rparr>)"
  using demo_run_ok [of "''A''" "[''A'']" demoWorld]
  by (simp add: demo_fields demo_paths demo_teamStats_A)

lemma demo_run_B:
  "calculateTeamStats (demoRequest ''B'') demoWorld =
     (Inr \<lparr>success = True, stats = statsB\<rparr>,
      demoWorld\<lparr>calls := [GetTeam [''B''], GetMember [''c1'', ''members'', ''u1''], QueryHome ''B'',
                           QueryAway ''B'', UpdateTeam [''B'']],
                teams := (teams demoWorld)([''B''] \<mapsto> (demoTeam ''B'')\<lparr>Team.stats := statsB, updatedAt := 1000\<rparr>)\<rparr>)"
  using demo_run_ok [of "''B''" "[''B'']" demoWorld]
  by (simp add: demo_fields demo_paths demo_teamStats_B)

lemma writeDown_run:
  "calculateTeamStats (demoRequest ''A'') writeDown =
     (Inl (HttpsError Internal ''Failed to calculate team stats''),
      writeDown\<lparr>calls := [GetTeam [''A''], GetMember [''c1'', ''members'', ''u1''], QueryHome ''A'',
                           QueryAway ''A'', UpdateTeam [''A'']]\<rparr>)"
  unfolding calculateTeamStats_unfold
  by (simp add: writeDown_def demo_fields demo_paths)

lemma membersDown_run:
  "calculateTeamStats (demoRequest ''A'') membersDown =
     (Inl (HttpsError PermissionDenied ''No access to this team''),
      membersDown\<lparr>calls := [GetTeam [''A''], GetMember [''c1'', ''members'', ''u1'']]\<rparr>)"
  unfolding calculateTeamStats_unfold
  by (simp add: membersDown_def demo_fields demo_paths)






section \<open>Properties of the statistics\<close>




text \<open>
  C2. A match without a \<^verbatim>\<open>result\<close> (in particular a finished one) changes no
  counter in either loop, and an invocation for any team returns the same response or
  error, and stores the same statistics, whether or not the \<^verbatim>\<open>matches\<close>
  collection holds that match: it is skipped, and no error is raised for it.
\<close>

theorem finished_without_result_skipped:
  assumes "result m = None"
  shows "processHome m c = c \<and> processAway m c = c \<and>
     teamStats tid (xs @ m # ys) = teamStats tid (xs @ ys) \<and>
     fst (calculateTeamStats req (w\<lparr>matches := xs @ m # ys\<rparr>)) =
     fst (calculateTeamStats req (w\<lparr>matches := xs @ ys\<rparr>)) \<and>
     teams (snd (calculateTeamStats req (w\<lparr>matches := xs @ m # ys\<rparr>))) =
     teams (snd (calculateTeamStats req (w\<lparr>matches := xs @ ys\<rparr>)))"
  using calculateTeamStats_matches_cong [of req "xs @ m # ys" "xs @ ys" w]
    teamStats_skip [OF assms]
  by (simp add: processHome_None processAway_None assms)

theorem finished_without_result_skipped_witness:
  "result noResult = None \<and> Match.status noResult = Finished \<and>
   homeTeamId noResult = ''A'' \<and> awayTeamId noResult = ''B'' \<and>
   processHome noResult counters0 = counters0 \<and> processAway noResult counters0 = counters0 \<and>
   teamStats ''A'' ([homeWin, awayDraw] @ noResult # [upcoming]) = teamStats ''A'' ([homeWin, awayDraw] @ [upcoming]) \<and>
   fst (calculateTeamStats (demoRequest ''A'') (demoWorld\<lparr>matches := [homeWin, awayDraw] @ noResult # [upcoming]\<rparr>)) =
   fst (calculateTeamStats (demoRequest ''A'') (demoWorld\<lparr>matches := [homeWin, awayDraw] @ [upcoming]\<rparr>)) \<and>
   teams (snd (calculateTeamStats (demoRequest ''A'') (demoWorld\<lparr>matches := [homeWin, awayDraw] @ noResult # [upcoming]\<rparr>))) =
   teams (snd (calculateTeamStats (demoRequest ''A'') (demoWorld\<lparr>matches := [homeWin, awayDraw] @ [upcoming]\<rparr>))) \<and>
   fst (calculateTeamStats (demoRequest ''A'') demoWorld) = Inr \<lparr>success = True, stats = statsA\<rparr>"
proof -
  have h: "result noResult = None"
    by (simp add: noResult_def demoMatch_def)
  have f: "Match.status noResult = Finished \<and> homeTeamId noResult = ''A'' \<and> awayTeamId noResult = ''B''"
    by (simp add: noResult_def demoMatch_def)
  show ?thesis
    using finished_without_result_skipped
      [OF h, of counters0 "''A''" "[homeWin, awayDraw]" "[upcoming]" "demoRequest ''A''" demoWorld]
      h f
    by (simp add: demo_run_A)
qed

text \<open>
  C3. With the single finished match of home team \<open>A\<close> against away team \<open>B\<close> that
  ended 3-1 in the store, the invocation for \<open>A\<close> returns one win, three goals for and
  one against, and the invocation for \<open>B\<close> one loss, one goal for and three against. In
  any run the home loop adds 3, 1 and one win to the counters for this match, and the
  away loop 1, 3 and one loss.
\<close>

theorem home_win_scenario:
  assumes "calculateTeamStats reqA w = (Inr rA, wA)" and "Option.bind (data reqA) teamId = Some A"
    and "calculateTeamStats reqB w = (Inr rB, wB)" and "Option.bind (data reqB) teamId = Some B"
    and "matches w = [m]" and "homeTeamId m = A" and "awayTeamId m = B" and "A \<noteq> B"
    and "Match.status m = Finished" and "result m = Some r"
    and "homeGoals r = Num 3" and "awayGoals r = Num 1"
  shows "Response.stats rA = \<lparr>matchesPlayed = Num 1, wins = Num 1, draws = Num 0, losses = Num 0,
            goalsFor = Num 3, goalsAgainst = Num 1, points = Num 3,
            currentStreak = \<lparr>type = Win, count = Num 0\<rparr>\<rparr> \<and>
         Response.stats rB = \<lparr>matchesPlayed = Num 1, wins = Num 0, draws = Num 0, losses = Num 1,
            goalsFor = Num 1, goalsAgainst = Num 3, points = Num 0,
            currentStreak = \<lparr>type = Win, count = Num 0\<rparr>\<rparr> \<and>
         processHome m c = c\<lparr>c_goalsFor := jsAdd (c_goalsFor c) (Num 3),
                             c_goalsAgainst := jsAdd (c_goalsAgainst c) (Num 1),
                             c_wins := jsAdd (c_wins c) (Num 1)\<rparr> \<and>
         processAway m c = c\<lparr>c_goalsFor := jsAdd (c_goalsFor c) (Num 1),
                             c_goalsAgainst := jsAdd (c_goalsAgainst c) (Num 3),
                             c_losses := jsAdd (c_losses c) (Num 1)\<rparr>"
proof -
  have a: "Response.stats rA = teamStats A [m]"
    using calculateTeamStats_stats [OF assms(1,2)] assms(5) by simp
  have b: "Response.stats rB = teamStats B [m]"
    using calculateTeamStats_stats [OF assms(3,4)] assms(5) by simp
  have ne: "B \<noteq> A" using assms(8) by simp
  show ?thesis
    unfolding a b
    by (simp add: teamStats_def homeFinished_def awayFinished_def buildStats_def
        processHome_def processAway_def counters0_def Let_def assms(6-12) ne
        jsEq_def jsMul_def small_numbers)
qed

theorem home_win_scenario_witness:
  "fst (calculateTeamStats (demoRequest ''A'') (demoWorld\<lparr>matches := [homeWin]\<rparr>)) =
     Inr \<lparr>success = True, stats = \<lparr>matchesPlayed = Num 1, wins = Num 1, draws = Num 0,
            losses = Num 0, goalsFor = Num 3, goalsAgainst = Num 1, points = Num 3,
            currentStreak = \<lparr>type = Win, count = Num 0\<rparr>\<rparr>\<rparr> \<and>
   fst (calculateTeamStats (demoRequest ''B'') (demoWorld\<lparr>matches := [homeWin]\<rparr>)) =
     Inr \<lparr>success = True, stats = \<lparr>matchesPlayed = Num 1, wins = Num 0, draws = Num 0,
            losses = Num 1, goalsFor = Num 1, goalsAgainst = Num 3, points = Num 0,
            currentStreak = \<lparr>type = Win, count = Num 0\<rparr>\<rparr>\<rparr> \<and>
   homeTeamId homeWin = ''A'' \<and> awayTeamId homeWin = ''B'' \<and> Match.status homeWin = Finished \<and>
   result homeWin = Some (score 3 1) \<and> homeGoals (score 3 1) = Num 3 \<and> awayGoals (score 3 1) = Num 1 \<and>
   processHome homeWin counters0 =
     counters0\<lparr>c_goalsFor := Num 3, c_goalsAgainst := Num 1, c_wins := Num 1\<rparr> \<and>
   processAway homeWin counters0 =
     counters0\<lparr>c_goalsFor := Num 1, c_goalsAgainst := Num 3, c_losses := Num 1\<rparr>"
proof -
  let ?w = "demoWorld\<lparr>matches := [homeWin]\<rparr>"
  have runA: "calculateTeamStats (demoRequest ''A'') ?w =
      (Inr \<lparr>success = True, stats = teamStats ''A'' [homeWin]\<rparr>, snd (calculateTeamStats (demoRequest ''A'') ?w))"
    using demo_run_ok [of "''A''" "[''A'']" ?w] by (simp add: demo_fields demo_paths)
  have runB: "calculateTeamStats (demoRequest ''B'') ?w =
      (Inr \<lparr>success = True, stats = teamStats ''B'' [homeWin]\<rparr>, snd (calculateTeamStats (demoRequest ''B'') ?w))"
    using demo_run_ok [of "''B''" "[''B'']" ?w] by (simp add: demo_fields demo_paths)
  have m: "homeTeamId homeWin = ''A''" "awayTeamId homeWin = ''B''" "''A'' \<noteq> ''B''"
    "Match.status homeWin = Finished" "result homeWin = Some (score 3 1)"
    "homeGoals (score 3 1) = Num 3" "awayGoals (score 3 1) = Num 1"
    by (simp_all add: homeWin_def demoMatch_def score_def)
  have t: "Option.bind (data (demoRequest ''A'')) teamId = Some ''A''"
    "Option.bind (data (demoRequest ''B'')) teamId = Some ''B''"
    "matches ?w = [homeWin]"
    by (simp_all add: demo_fields)
  have fA: "fst (calculateTeamStats (demoRequest ''A'') ?w) =
      Inr \<lparr>success = True, stats = teamStats ''A'' [homeWin]\<rparr>"
    using demo_run_ok [of "''A''" "[''A'']" ?w] by (simp add: demo_fields demo_paths)
  have fB: "fst (calculateTeamStats (demoRequest ''B'') ?w) =
      Inr \<lparr>success = True, stats = teamStats ''B'' [homeWin]\<rparr>"
    using demo_run_ok [of "''B''" "[''B'']" ?w] by (simp add: demo_fields demo_paths)
  from home_win_scenario [OF runA t(1) runB t(2) t(3) m, of counters0]
  show ?thesis
    unfolding fA fB using m by (simp add: counters0_def small_numbers)
qed

text \<open>
  C5. The \<open>currentStreak\<close> of the statistics a successful invocation returns, and of
  the statistics it stores in the team document the identifier resolves to, is \<open>{type: 'win', count: 0}\<close>; so is
  the streak of the statistics built from any two snapshots, whatever their results.
\<close>

theorem current_streak_hard_coded:
  assumes "calculateTeamStats req w = (Inr r, w')" and "Option.bind (data req) teamId = Some tid"
  shows "currentStreak (Response.stats r) = \<lparr>type = Win, count = Num 0\<rparr> \<and>
         (\<exists>p. docRef tid = Some p \<and>
            map_option (\<lambda>t. currentStreak (Team.stats t)) (teams w' p) =
              Some \<lparr>type = Win, count = Num 0\<rparr>) \<and>
         currentStreak (buildStats hs as) = \<lparr>type = Win, count = Num 0\<rparr>"
  using calculateTeamStats_success [OF assms(1)] assms(2)
  by (auto simp: buildStats_def Let_def)

theorem current_streak_hard_coded_witness:
  "fst (calculateTeamStats (demoRequest ''B'') demoWorld) = Inr \<lparr>success = True, stats = statsB\<rparr> \<and>
   wins statsB = Num 0 \<and> losses statsB = Num 1 \<and>
   currentStreak statsB = \<lparr>type = Win, count = Num 0\<rparr> \<and>
   docRef ''B'' = Some [''B''] \<and>
   map_option (\<lambda>t. currentStreak (Team.stats t))
     (teams (snd (calculateTeamStats (demoRequest ''B'') demoWorld)) [''B'']) =
       Some \<lparr>type = Win, count = Num 0\<rparr> \<and>
   currentStreak (buildStats [awayDraw] [homeWin]) = \<lparr>type = Win, count = Num 0\<rparr>"
proof -
  have run: "calculateTeamStats (demoRequest ''B'') demoWorld =
      (Inr \<lparr>success = True, stats = statsB\<rparr>, snd (calculateTeamStats (demoRequest ''B'') demoWorld))"
    by (simp add: demo_run_B)
  have tid: "Option.bind (data (demoRequest ''B'')) teamId = Some ''B''"
    by (simp add: demo_fields)
  have f: "fst (calculateTeamStats (demoRequest ''B'') demoWorld) = Inr \<lparr>success = True, stats = statsB\<rparr>"
    by (simp add: demo_run_B)
  from current_streak_hard_coded [OF run tid, of "[awayDraw]" "[homeWin]"]
  show ?thesis
    unfolding f by (auto simp: statsB_def demo_paths)
qed

section \<open>Effects on the store\<close>

text \<open>
  C9. A successful invocation replaces the team document the requested identifier
  resolves to by the same document with \<open>stats\<close> set to the returned statistics and
  \<open>updatedAt\<close> set to the clock: every other field of the document keeps its value,
  every other team document, the \<^verbatim>\<open>matches\<close> collection and the memberships are
  unchanged.
\<close>

theorem persistence_frame:
  assumes "calculateTeamStats req w = (Inr r, w')" and "Option.bind (data req) teamId = Some tid"
  shows "\<exists>p t t'. docRef tid = Some p \<and> teams w p = Some t \<and> teams w' p = Some t' \<and>
           t' = t\<lparr>Team.stats := Response.stats r, updatedAt := clock w\<rparr> \<and>
           id t' = id t \<and> createdAt t' = createdAt t \<and> version t' = version t \<and>
           createdBy t' = createdBy t \<and> updatedBy t' = updatedBy t \<and>
           Team.clubId t' = Team.clubId t \<and> name t' = name t \<and> season t' = season t \<and>
           players t' = players t \<and> Team.more t' = Team.more t \<and>
           teams w' = (teams w)(p \<mapsto> t') \<and>
           matches w' = matches w \<and> members w' = members w"
  using calculateTeamStats_success [OF assms(1)] assms(2)
  by auto

theorem persistence_frame_witness:
  "fst (calculateTeamStats (demoRequest ''A'') demoWorld) = Inr \<lparr>success = True, stats = statsA\<rparr> \<and>
   docRef ''A'' = Some [''A''] \<and>
   teams (snd (calculateTeamStats (demoRequest ''A'') demoWorld)) [''A''] =
     Some ((demoTeam ''A'')\<lparr>Team.stats := statsA, updatedAt := 1000\<rparr>) \<and>
   teams (snd (calculateTeamStats (demoRequest ''A'') demoWorld)) [''B''] = Some (demoTeam ''B'') \<and>
   matches (snd (calculateTeamStats (demoRequest ''A'') demoWorld)) = [homeWin, awayDraw, noResult, upcoming] \<and>
   members (snd (calculateTeamStats (demoRequest ''A'') demoWorld)) = members demoWorld"
proof -
  have run: "calculateTeamStats (demoRequest ''A'') demoWorld =
      (Inr \<lparr>success = True, stats = statsA\<rparr>, snd (calculateTeamStats (demoRequest ''A'') demoWorld))"
    by (simp add: demo_run_A)
  have tid: "Option.bind (data (demoRequest ''A'')) teamId = Some ''A''"
    by (simp add: demo_fields)
  have f: "fst (calculateTeamStats (demoRequest ''A'') demoWorld) = Inr \<lparr>success = True, stats = statsA\<rparr>"
    by (simp add: demo_run_A)
  have m: "matches demoWorld = [homeWin, awayDraw, noResult, upcoming]"
    by (simp add: demoWorld_def)
  from persistence_frame [OF run tid]
  show ?thesis
    unfolding f by (auto simp: demo_fields demo_paths m)
qed

section \<open>Errors and atomicity\<close>




section \<open>Determinism, order and penalty counts\<close>

text \<open>
  C7. The statistics a successful invocation returns are a function of the team
  identifier and of the \<^verbatim>\<open>matches\<close> collection alone, and the invocation leaves
  that collection as it was. So any other successful invocation for the same team on
  the same collection (another caller, another time, other stored statistics) returns
  the same response; and running the same request again on the store the first run left
  succeeds with the same response, as long as the store serves the five calls of the
  second run.
\<close>

theorem aggregation_deterministic:
  assumes "calculateTeamStats req w = (Inr r, w1)" and "Option.bind (data req) teamId = Some tid"
  shows "Response.stats r = teamStats tid (matches w) \<and> matches w1 = matches w \<and>
     (calculateTeamStats req2 w2 = (Inr r2, w3) \<and> Option.bind (data req2) teamId = Some tid \<and>
      matches w2 = matches w \<longrightarrow> r2 = r) \<and>
     (\<not> outage w (length (calls w) + 5) \<and> \<not> outage w (length (calls w) + 6) \<and>
      \<not> outage w (length (calls w) + 7) \<and> \<not> outage w (length (calls w) + 8) \<and>
      \<not> outage w (length (calls w) + 9) \<longrightarrow>
        fst (calculateTeamStats req w1) = Inr r \<and>
        matches (snd (calculateTeamStats req w1)) = matches w)"
proof -
  from calculateTeamStats_success [OF assms(1)] assms(2)
  obtain a p team mp m where s:
    "auth req = Some a" "tid \<noteq> []" "docRef tid = Some p" "teams w p = Some team"
    "memberRef (Team.clubId team) (AuthData.uid a) = Some mp"
    "members w mp = Some m" "ClubMembership.status m = Active"
    "r = \<lparr>success = True, stats = teamStats tid (matches w)\<rparr>"
    "teams w1 = (teams w)(p \<mapsto> team\<lparr>Team.stats := Response.stats r, updatedAt := clock w\<rparr>)"
    "members w1 = members w" "matches w1 = matches w" "outage w1 = outage w"
    "calls w1 = calls w @ [GetTeam p, GetMember mp, QueryHome tid, QueryAway tid, UpdateTeam p]"
    by (auto simp: teamStats_def)
  have first: "Response.stats r = teamStats tid (matches w)"
    using s(8) by simp
  have other: "r2 = r"
    if "calculateTeamStats req2 w2 = (Inr r2, w3)" "Option.bind (data req2) teamId = Some tid"
       "matches w2 = matches w"
    using calculateTeamStats_success [OF that(1)] that(2,3) s(8)
    by (auto simp: teamStats_def)
  have again: "fst (calculateTeamStats req w1) = Inr r \<and>
        matches (snd (calculateTeamStats req w1)) = matches w"
    if "\<not> outage w (length (calls w) + 5)" "\<not> outage w (length (calls w) + 6)"
       "\<not> outage w (length (calls w) + 7)" "\<not> outage w (length (calls w) + 8)"
       "\<not> outage w (length (calls w) + 9)"
  proof -
    have "calculateTeamStats req w1 =
      (Inr \<lparr>success = True, stats = teamStats tid (matches w1)\<rparr>,
       w1\<lparr>calls := calls w1 @ [GetTeam p, GetMember mp, QueryHome tid, QueryAway tid, UpdateTeam p],
          teams := (teams w1)(p \<mapsto> team\<lparr>Team.stats := Response.stats r, updatedAt := clock w\<rparr>
                     \<lparr>Team.stats := teamStats tid (matches w1), updatedAt := clock w1\<rparr>)\<rparr>)"
      by (rule calculateTeamStats_ok [where m = m and a = a])
         (use s that assms(2) in \<open>simp_all add: numeral_eq_Suc\<close>)
    then show ?thesis using s by simp
  qed
  show ?thesis using first s(11) other again by blast
qed

theorem aggregation_deterministic_witness:
  "fst (calculateTeamStats (demoRequest ''A'') demoWorld) = Inr \<lparr>success = True, stats = statsA\<rparr> \<and>
   statsA = teamStats ''A'' (matches demoWorld) \<and>
   matches (snd (calculateTeamStats (demoRequest ''A'') demoWorld)) = matches demoWorld \<and>
   fst (calculateTeamStats (demoRequest ''A'') (demoWorld\<lparr>clock := 2000\<rparr>)) =
     Inr \<lparr>success = True, stats = statsA\<rparr> \<and>
   fst (calculateTeamStats (demoRequest ''A'') (snd (calculateTeamStats (demoRequest ''A'') demoWorld))) =
     Inr \<lparr>success = True, stats = statsA\<rparr> \<and>
   matches (snd (calculateTeamStats (demoRequest ''A'')
     (snd (calculateTeamStats (demoRequest ''A'') demoWorld)))) = matches demoWorld"
proof -
  let ?w2 = "demoWorld\<lparr>clock := 2000\<rparr>"
  let ?r2 = "\<lparr>success = True, stats = teamStats ''A'' (matches ?w2)\<rparr>"
  have run: "calculateTeamStats (demoRequest ''A'') demoWorld =
      (Inr \<lparr>success = True, stats = statsA\<rparr>, snd (calculateTeamStats (demoRequest ''A'') demoWorld))"
    by (simp add: demo_run_A)
  have tid: "Option.bind (data (demoRequest ''A'')) teamId = Some ''A''"
    by (simp add: demo_fields)
  have run2: "calculateTeamStats (demoRequest ''A'') ?w2 =
      (Inr ?r2, snd (calculateTeamStats (demoRequest ''A'') ?w2))"
    using demo_run_ok [of "''A''" "[''A'']" ?w2] by (simp add: demo_fields demo_paths)
  have f2: "fst (calculateTeamStats (demoRequest ''A'') ?w2) = Inr ?r2"
    using demo_run_ok [of "''A''" "[''A'']" ?w2] by (simp add: demo_fields demo_paths)
  have m2: "matches ?w2 = matches demoWorld"
    by simp
  have up: "\<not> outage demoWorld (length (calls demoWorld) + 5)"
    "\<not> outage demoWorld (length (calls demoWorld) + 6)"
    "\<not> outage demoWorld (length (calls demoWorld) + 7)"
    "\<not> outage demoWorld (length (calls demoWorld) + 8)"
    "\<not> outage demoWorld (length (calls demoWorld) + 9)"
    by (simp_all add: demo_fields)
  note t = aggregation_deterministic [OF run tid, of "demoRequest ''A''" ?w2 ?r2
      "snd (calculateTeamStats (demoRequest ''A'') ?w2)"]
  from t have c1: "statsA = teamStats ''A'' (matches demoWorld)"
    and c2: "matches (snd (calculateTeamStats (demoRequest ''A'') demoWorld)) = matches demoWorld"
    by simp_all
  from t run2 tid m2 have c3: "?r2 = \<lparr>success = True, stats = statsA\<rparr>"
    by blast
  from t up have c4:
    "fst (calculateTeamStats (demoRequest ''A'') (snd (calculateTeamStats (demoRequest ''A'') demoWorld))) =
       Inr \<lparr>success = True, stats = statsA\<rparr> \<and>
     matches (snd (calculateTeamStats (demoRequest ''A'')
       (snd (calculateTeamStats (demoRequest ''A'') demoWorld)))) = matches demoWorld"
    by blast
  have f1: "fst (calculateTeamStats (demoRequest ''A'') demoWorld) = Inr \<lparr>success = True, stats = statsA\<rparr>"
    by (simp add: demo_run_A)
  show ?thesis
    using c1 c2 c3 c4 f2 f1 by simp
qed




text \<open>
  C10. Two \<^verbatim>\<open>matches\<close> collections that differ in the penalty counts of their
  results only give every team the same statistics, and an invocation the same outcome
  and the same stored statistics. In particular a match whose result has as many home
  goals as away goals (as \<^verbatim>\<open>===\<close> decides) counts as a draw in both loops, one point
  for either team, whatever its penalty counts.
\<close>

theorem penalties_ignored:
  assumes "map erasePenalties ms' = map erasePenalties ms"
  shows "teamStats tid ms' = teamStats tid ms \<and>
     fst (calculateTeamStats req (w\<lparr>matches := ms'\<rparr>)) = fst (calculateTeamStats req (w\<lparr>matches := ms\<rparr>)) \<and>
     teams (snd (calculateTeamStats req (w\<lparr>matches := ms'\<rparr>))) =
     teams (snd (calculateTeamStats req (w\<lparr>matches := ms\<rparr>))) \<and>
     (result m = Some r \<and> jsEq (homeGoals r) (awayGoals r) \<longrightarrow>
        processHome m c = c\<lparr>c_goalsFor := jsAdd (c_goalsFor c) (homeGoals r),
                            c_goalsAgainst := jsAdd (c_goalsAgainst c) (awayGoals r),
                            c_draws := jsAdd (c_draws c) (Num 1)\<rparr> \<and>
        processAway m c = c\<lparr>c_goalsFor := jsAdd (c_goalsFor c) (awayGoals r),
                            c_goalsAgainst := jsAdd (c_goalsAgainst c) (homeGoals r),
                            c_draws := jsAdd (c_draws c) (Num 1)\<rparr> \<and>
        points (buildStats [m] []) = Num 1 \<and> draws (buildStats [m] []) = Num 1 \<and>
        points (buildStats [] [m]) = Num 1 \<and> draws (buildStats [] [m]) = Num 1)"
proof -
  have t: "teamStats x ms' = teamStats x ms" for x
    using teamStats_erase [of x ms'] teamStats_erase [of x ms] assms by simp
  have g: "\<not> jsGt x x" for x
    by (cases x) simp_all
  have d: "processHome m c = c\<lparr>c_goalsFor := jsAdd (c_goalsFor c) (homeGoals r),
                            c_goalsAgainst := jsAdd (c_goalsAgainst c) (awayGoals r),
                            c_draws := jsAdd (c_draws c) (Num 1)\<rparr> \<and>
        processAway m c = c\<lparr>c_goalsFor := jsAdd (c_goalsFor c) (awayGoals r),
                            c_goalsAgainst := jsAdd (c_goalsAgainst c) (homeGoals r),
                            c_draws := jsAdd (c_draws c) (Num 1)\<rparr> \<and>
        points (buildStats [m] []) = Num 1 \<and> draws (buildStats [m] []) = Num 1 \<and>
        points (buildStats [] [m]) = Num 1 \<and> draws (buildStats [] [m]) = Num 1"
    if "result m = Some r" "jsEq (homeGoals r) (awayGoals r)"
    using that g [of "awayGoals r"]
    by (auto simp: processHome_def processAway_def buildStats_def counters0_def Let_def jsEq_def
        jsMul_def small_numbers)
  show ?thesis
    using t [of tid] calculateTeamStats_matches_cong [of req ms' ms w, OF t] d by blast
qed

theorem penalties_ignored_witness:
  "map erasePenalties [homeWin, plainDraw, noResult, upcoming] = map erasePenalties (matches demoWorld) \<and>
   [homeWin, plainDraw, noResult, upcoming] \<noteq> matches demoWorld \<and>
   teamStats ''B'' [homeWin, plainDraw, noResult, upcoming] = statsB \<and>
   fst (calculateTeamStats (demoRequest ''B'') (demoWorld\<lparr>matches := [homeWin, plainDraw, noResult, upcoming]\<rparr>)) =
     Inr \<lparr>success = True, stats = statsB\<rparr> \<and>
   result awayDraw = Some (shootout 2 2 4 5) \<and>
   jsEq (homeGoals (shootout 2 2 4 5)) (awayGoals (shootout 2 2 4 5)) \<and>
   homeTeamPenalties (shootout 2 2 4 5) = Some (Num 4) \<and>
   awayTeamPenalties (shootout 2 2 4 5) = Some (Num 5) \<and>
   processHome awayDraw counters0 =
     counters0\<lparr>c_goalsFor := Num 2, c_goalsAgainst := Num 2, c_draws := Num 1\<rparr> \<and>
   processAway awayDraw counters0 =
     counters0\<lparr>c_goalsFor := Num 2, c_goalsAgainst := Num 2, c_draws := Num 1\<rparr> \<and>
   points (buildStats [awayDraw] []) = Num 1 \<and> points (buildStats [] [awayDraw]) = Num 1"
proof -
  have e: "map erasePenalties [homeWin, plainDraw, noResult, upcoming] = map erasePenalties (matches demoWorld)"
    by (simp add: erasePenalties_def demoWorld_def homeWin_def plainDraw_def awayDraw_def
        noResult_def upcoming_def demoMatch_def score_def shootout_def)
  have n: "[homeWin, plainDraw, noResult, upcoming] \<noteq> matches demoWorld"
    by (simp add: demoWorld_def plainDraw_def awayDraw_def demoMatch_def score_def shootout_def)
  have r: "result awayDraw = Some (shootout 2 2 4 5)"
    "jsEq (homeGoals (shootout 2 2 4 5)) (awayGoals (shootout 2 2 4 5))"
    "homeTeamPenalties (shootout 2 2 4 5) = Some (Num 4)"
    "awayTeamPenalties (shootout 2 2 4 5) = Some (Num 5)"
    "homeGoals (shootout 2 2 4 5) = Num 2" "awayGoals (shootout 2 2 4 5) = Num 2"
    by (simp_all add: awayDraw_def demoMatch_def shootout_def jsEq_def)
  have w: "demoWorld\<lparr>matches := matches demoWorld\<rparr> = demoWorld"
    by simp
  from penalties_ignored [OF e, of "''B''" "demoRequest ''B''" demoWorld awayDraw
      "shootout 2 2 4 5" counters0]
  show ?thesis
    unfolding w demo_run_B demo_teamStats_B using e n r by (simp add: counters0_def small_numbers)
qed

section \<open>Store failures\<close>

text \<open>
  C8, as the handler has it. When the store rejects a call the invocation issued, that
  call is the last one issued (nothing is retried and nothing is attempted after it: the
  calls issued are pairwise distinct), the \<^verbatim>\<open>teams\<close> collection is unchanged, and
  the caller receives the \<^verbatim>\<open>internal\<close> error when the rejected call is the read of
  the team document, one of the two match queries or the update, but
  \<^verbatim>\<open>permission-denied\<close> when it is the membership read, whose failure
  \<^verbatim>\<open>hasClubPermission\<close> catches and answers with \<^verbatim>\<open>false\<close>.
\<close>

theorem store_failure_surfaces:
  assumes "k < length (issued w (snd (calculateTeamStats req w)))"
    and "outage w (length (calls w) + k)"
  shows "Suc k = length (issued w (snd (calculateTeamStats req w))) \<and>
     distinct (issued w (snd (calculateTeamStats req w))) \<and>
     calls (snd (calculateTeamStats req w)) = calls w @ issued w (snd (calculateTeamStats req w)) \<and>
     teams (snd (calculateTeamStats req w)) = teams w \<and>
     fst (calculateTeamStats req w) =
       (case issued w (snd (calculateTeamStats req w)) ! k of
          GetMember mp \<Rightarrow> Inl (HttpsError PermissionDenied ''No access to this team'')
        | GetTeam p \<Rightarrow> Inl (HttpsError Internal ''Failed to calculate team stats'')
        | QueryHome tid \<Rightarrow> Inl (HttpsError Internal ''Failed to calculate team stats'')
        | QueryAway tid \<Rightarrow> Inl (HttpsError Internal ''Failed to calculate team stats'')
        | UpdateTeam p \<Rightarrow> Inl (HttpsError Internal ''Failed to calculate team stats''))"
proof (cases rule: calculateTeamStats_paths [of req w])
  case (rejected e)
  with assms show ?thesis by (simp add: issued_def)
next
  case (team_read_failed p)
  with assms show ?thesis by (simp add: issued_def)
next
  case (not_found p)
  with assms show ?thesis by (simp add: issued_def)
next
  case (denied_unread p)
  with assms show ?thesis by (simp add: issued_def)
next
  case (denied p mp)
  with assms show ?thesis by (auto simp: issued_def less_Suc_eq numeral_eq_Suc)
next
  case (home_query_failed p mp tid)
  with assms show ?thesis by (auto simp: issued_def less_Suc_eq numeral_eq_Suc)
next
  case (away_query_failed p mp tid)
  with assms show ?thesis by (auto simp: issued_def less_Suc_eq numeral_eq_Suc)
next
  case (write_failed p mp tid)
  with assms show ?thesis by (auto simp: issued_def less_Suc_eq numeral_eq_Suc)
next
  case (served p mp r tid ts)
  with assms show ?thesis by (auto simp: issued_def less_Suc_eq numeral_eq_Suc)
qed

theorem store_failure_surfaces_witness:
  "1 < length (issued membersDown (snd (calculateTeamStats (demoRequest ''A'') membersDown))) \<and>
   outage membersDown (length (calls membersDown) + 1) \<and>
   issued membersDown (snd (calculateTeamStats (demoRequest ''A'') membersDown)) =
     [GetTeam [''A''], GetMember [''c1'', ''members'', ''u1'']] \<and>
   fst (calculateTeamStats (demoRequest ''A'') membersDown) =
     Inl (HttpsError PermissionDenied ''No access to this team'') \<and>
   teams (snd (calculateTeamStats (demoRequest ''A'') membersDown)) = teams membersDown \<and>
   4 < length (issued writeDown (snd (calculateTeamStats (demoRequest ''A'') writeDown))) \<and>
   outage writeDown (length (calls writeDown) + 4) \<and>
   issued writeDown (snd (calculateTeamStats (demoRequest ''A'') writeDown)) =
     [GetTeam [''A''], GetMember [''c1'', ''members'', ''u1''], QueryHome ''A'', QueryAway ''A'', UpdateTeam [''A'']] \<and>
   fst (calculateTeamStats (demoRequest ''A'') writeDown) =
     Inl (HttpsError Internal ''Failed to calculate team stats'') \<and>
   teams (snd (calculateTeamStats (demoRequest ''A'') writeDown)) = teams writeDown"
proof -
  have im: "issued membersDown (snd (calculateTeamStats (demoRequest ''A'') membersDown)) =
      [GetTeam [''A''], GetMember [''c1'', ''members'', ''u1'']]"
    by (simp add: membersDown_run issued_def) (simp add: membersDown_def demo_fields)
  have iw: "issued writeDown (snd (calculateTeamStats (demoRequest ''A'') writeDown)) =
      [GetTeam [''A''], GetMember [''c1'', ''members'', ''u1''], QueryHome ''A'', QueryAway ''A'', UpdateTeam [''A'']]"
    by (simp add: writeDown_run issued_def) (simp add: writeDown_def demo_fields)
  have km: "1 < length (issued membersDown (snd (calculateTeamStats (demoRequest ''A'') membersDown)))"
    by (simp add: im)
  have kw: "4 < length (issued writeDown (snd (calculateTeamStats (demoRequest ''A'') writeDown)))"
    by (simp add: iw)
  have om: "outage membersDown (length (calls membersDown) + 1)"
    by (simp add: membersDown_def demo_fields)
  have ow: "outage writeDown (length (calls writeDown) + 4)"
    by (simp add: writeDown_def demo_fields)
  from store_failure_surfaces [OF km om] store_failure_surfaces [OF kw ow]
  show ?thesis
    using km kw om ow by (simp add: im iw)
qed

text \<open>
  The membership read of an active member is rejected: the caller receives
  \<^verbatim>\<open>permission-denied\<close>, not \<^verbatim>\<open>internal\<close>.
\<close>

theorem store_failure_internal_counterexample:
  "members membersDown [''c1'', ''members'', ''u1''] = Some demoMember \<and> ClubMembership.status demoMember = Active \<and>
   outage membersDown (Suc (length (calls membersDown))) \<and>
   issued membersDown (snd (calculateTeamStats (demoRequest ''A'') membersDown)) =
     [GetTeam [''A''], GetMember [''c1'', ''members'', ''u1'']] \<and>
   fst (calculateTeamStats (demoRequest ''A'') membersDown) =
     Inl (HttpsError PermissionDenied ''No access to this team'') \<and>
   fst (calculateTeamStats (demoRequest ''A'') membersDown) \<noteq>
     Inl (HttpsError Internal ''Failed to calculate team stats'')"
  by (simp add: membersDown_run issued_def) (simp add: membersDown_def demo_fields)

end
